theory Spec2Isabelle
  imports Complex_Main
begin

section \<open>Values, errors and arrays\<close>

text \<open>
  A numpy float64: a finite value, one of the two infinities, or NaN. Finite values are
  reals; rounding and overflow of finite arithmetic are outside this model.
\<close>

datatype npfloat = Fin real | PInf | NInf | NaN

text \<open>Addition on float64 with the special values of IEEE 754.\<close>

fun np_add :: "npfloat \<Rightarrow> npfloat \<Rightarrow> npfloat" where
  "np_add NaN y = NaN"
| "np_add x NaN = NaN"
| "np_add PInf NInf = NaN"
| "np_add NInf PInf = NaN"
| "np_add PInf y = PInf"
| "np_add x PInf = PInf"
| "np_add NInf y = NInf"
| "np_add x NInf = NInf"
| "np_add (Fin x) (Fin y) = Fin (x + y)"

text \<open>\<^verbatim>\<open>np.sum(row)\<close> over one voxel's time series, and \<^verbatim>\<open>np.isnan\<close>.\<close>

definition np_sum :: "npfloat list \<Rightarrow> npfloat" where
  "np_sum row = foldl np_add (Fin 0) row"

fun np_isnan :: "npfloat \<Rightarrow> bool" where
  "np_isnan NaN = True"
| "np_isnan x = False"

text \<open>\<^verbatim>\<open>np.sqrt\<close>: NaN on a negative argument.\<close>

fun np_sqrt :: "npfloat \<Rightarrow> npfloat" where
  "np_sqrt (Fin x) = (if 0 \<le> x then Fin (sqrt x) else NaN)"
| "np_sqrt PInf = PInf"
| "np_sqrt NInf = NaN"
| "np_sqrt NaN = NaN"

text \<open>Every place where the modelled code raises, one constructor per place.\<close>

datatype error =
    AssertionError_echoes
  | AssertionError_multithread
  | IndexError_mask_shape
  | TypeError_float_shape
  | ValueError_reshape
  | TypeError_iter_0d
  | ValueError_unpack
  | Raised_by_curve_fit
  | ValueError_zero_size
  | MaskError
  | ValueError_broadcast
  | ValueError_two_echoes

text \<open>
  The input array of both classes. Its last axis is time; the classes only ever use the
  shape without the last axis, the length of the last axis, and the (voxel, time) view
  \<^verbatim>\<open>pixel_array.reshape(-1, n_te)\<close>, whose rows are the voxels in C order.
\<close>

record 'a ndarray =
  spatial_shape :: "nat list"
  last_axis :: nat
  voxel_rows :: "'a list list"

definition wf_ndarray :: "'a ndarray \<Rightarrow> bool" where
  "wf_ndarray a =
     (length (voxel_rows a) = prod_list (spatial_shape a) \<and>
      list_all (\<lambda>r. length r = last_axis a) (voxel_rows a))"

section \<open>T2 mapping (ukat/mapping/t2.py)\<close>

subsection \<open>The per-voxel fit\<close>

text \<open>
  \<^verbatim>\<open>scipy.optimize.curve_fit(two_param_eq, te, sig, p0=[20, 10000], bounds=([0, 0], [700, 1000000]))\<close>
  is an external optimiser: it is a parameter of the model, a function of the echo times
  and the signal. It returns the fitted parameters (inside the finite bounds, hence reals)
  and the 2x2 covariance matrix (whose entries can be infinite), raises RuntimeError when
  the least-squares minimisation fails, or raises something else (ValueError on a
  non-finite signal).
\<close>

datatype curve_fit_outcome =
    Converged "real \<times> real" "(npfloat \<times> npfloat) \<times> (npfloat \<times> npfloat)"
  | RuntimeError
  | OtherError

type_synonym curve_fit = "real list \<Rightarrow> npfloat list \<Rightarrow> curve_fit_outcome"

text \<open>The tuple \<^verbatim>\<open>(t2, t2_err, m0, m0_err)\<close> that \<^verbatim>\<open>__fit_signal__\<close> returns.\<close>

type_synonym fit_result = "npfloat \<times> npfloat \<times> npfloat \<times> npfloat"

definition fit_signal :: "curve_fit \<Rightarrow> npfloat list \<Rightarrow> real list \<Rightarrow> error + fit_result" where
  "fit_signal curve_fit sig te =
     (let bounds = ((0 :: real, 0 :: real), (700 :: real, 1000000 :: real)) in
      case (case curve_fit te sig of
              Converged popt pcov \<Rightarrow> Inr (popt, pcov)
            | RuntimeError \<Rightarrow> Inr ((0, 0), ((Fin 0, Fin 0), (Fin 0, Fin 0)))
            | OtherError \<Rightarrow> Inl Raised_by_curve_fit) of
        Inl e \<Rightarrow> Inl e
      | Inr (popt, pcov) \<Rightarrow>
          if fst popt < fst (snd bounds) - 1
          then (let t2 = fst popt; m0 = snd popt;
                    err = (np_sqrt (fst (fst pcov)), np_sqrt (snd (snd pcov)))
                in Inr (Fin t2, fst err, Fin m0, snd err))
          else Inr (Fin 0, Fin 0, Fin 0, Fin 0))"

subsection \<open>The voxel loop, sequential and on a process pool\<close>

text \<open>
  \<^verbatim>\<open>np.argwhere(mask).squeeze()\<close> on the flattened mask: the indices of the true entries,
  ascending. \<^verbatim>\<open>argwhere\<close> returns an array of shape (k, 1) and \<^verbatim>\<open>squeeze\<close> drops every axis
  of length one, so for k = 1 the result is a 0-d array, which cannot be iterated.
\<close>

datatype index_array = Idx0 nat | Idx1 "nat list"

definition argwhere :: "bool list \<Rightarrow> nat list" where
  "argwhere m = filter (\<lambda>i. m ! i) [0..<length m]"

definition squeeze :: "nat list \<Rightarrow> index_array" where
  "squeeze w = (case w of [i] \<Rightarrow> Idx0 i | _ \<Rightarrow> Idx1 w)"

text \<open>The four maps, flattened: \<^verbatim>\<open>(t2_map, t2_err, m0_map, m0_err)\<close>.\<close>

type_synonym maps = "npfloat list \<times> npfloat list \<times> npfloat list \<times> npfloat list"

text \<open>The single-threaded loop: one fit per index, written in place at that index.\<close>

fun sequential_loop ::
  "curve_fit \<Rightarrow> npfloat list list \<Rightarrow> real list \<Rightarrow> nat list \<Rightarrow> maps \<Rightarrow> error + maps" where
  "sequential_loop curve_fit signal te [] ms = Inr ms"
| "sequential_loop curve_fit signal te (ind # inds) (t2_map, t2_err, m0_map, m0_err) =
     (case fit_signal curve_fit (signal ! ind) te of
        Inl e \<Rightarrow> Inl e
      | Inr (t2, t2e, m0, m0e) \<Rightarrow>
          sequential_loop curve_fit signal te inds
            (t2_map[ind := t2], t2_err[ind := t2e], m0_map[ind := m0], m0_err[ind := m0e]))"

text \<open>
  The process pool. Task \<open>j\<close> is the \<open>j\<close>-th submitted call; \<open>completion\<close> lists the tasks
  in the order in which the workers finish them, which the caller does not control. A
  finished task's future holds the value of its call (a result or the exception it
  raised); a task that is not in the list never finishes.
\<close>

definition pool_run :: "nat list \<Rightarrow> 'r list \<Rightarrow> (nat \<times> 'r) list" where
  "pool_run completion tasks =
     map (\<lambda>j. (j, tasks ! j)) (filter (\<lambda>j. j < length tasks) completion)"

text \<open>
  \<^verbatim>\<open>for future in futures: results.append(future.result())\<close>: the futures are read in
  submission order; \<^verbatim>\<open>result()\<close> waits for its task (\<open>None\<close>: for ever) and re-raises the
  task's exception.
\<close>

fun collect :: "(nat \<times> (error + 'r)) list \<Rightarrow> nat list \<Rightarrow> (error + 'r list) option" where
  "collect finished [] = Some (Inr [])"
| "collect finished (j # js) =
     (case map_of finished j of
        None \<Rightarrow> None
      | Some (Inl e) \<Rightarrow> Some (Inl e)
      | Some (Inr r) \<Rightarrow>
          (case collect finished js of
             None \<Rightarrow> None
           | Some (Inl e) \<Rightarrow> Some (Inl e)
           | Some (Inr rs) \<Rightarrow> Some (Inr (r # rs))))"

text \<open>
  Leaving the \<^verbatim>\<open>with ProcessPoolExecutor() as pool\<close> block waits for every submitted task,
  also when an exception leaves it.
\<close>

definition pool_results :: "nat list \<Rightarrow> (error + 'r) list \<Rightarrow> (error + 'r list) option" where
  "pool_results completion tasks =
     (let collected = collect (pool_run completion tasks) [0..<length tasks]
      in if list_all (\<lambda>j. j \<in> set completion) [0..<length tasks] then collected else None)"

text \<open>\<^verbatim>\<open>a[idx] = vals\<close> with an index array: entry by entry.\<close>

definition scatter :: "'a list \<Rightarrow> nat list \<Rightarrow> 'a list \<Rightarrow> 'a list" where
  "scatter a idx vals = fold (\<lambda>(i, v) b. b[i := v]) (zip idx vals) a"

text \<open>
  \<^verbatim>\<open>__fit__\<close>. With a spatial shape \<^verbatim>\<open>()\<close>, \<^verbatim>\<open>np.prod(())\<close> is the float 1.0 and
  \<^verbatim>\<open>np.zeros(1.0)\<close> raises; \<^verbatim>\<open>reshape(-1, 0)\<close> raises. In the pool branch
  \<^verbatim>\<open>zip(*results)\<close> of no results is empty, and unpacking it into four targets raises.
  The result is \<open>None\<close> when the call never returns.
\<close>

definition fit ::
  "curve_fit \<Rightarrow> nat list \<Rightarrow> nat list \<Rightarrow> nat \<Rightarrow> nat \<Rightarrow> bool list \<Rightarrow> npfloat ndarray \<Rightarrow>
   real list \<Rightarrow> bool \<Rightarrow> (error + maps) option" where
  "fit curve_fit completion shape n_te n_vox mask_flat pixel_array echo_list multithread =
     (if shape = [] then Some (Inl TypeError_float_shape)
      else if n_te = 0 then Some (Inl ValueError_reshape)
      else
        let zeros = replicate n_vox (Fin 0);
            signal = voxel_rows pixel_array;
            idx = squeeze (argwhere mask_flat)
        in if multithread then
             (case idx of
                Idx0 i \<Rightarrow> Some (Inl TypeError_iter_0d)
              | Idx1 inds \<Rightarrow>
                  (let futures = map (\<lambda>ind. fit_signal curve_fit (signal ! ind) echo_list) inds
                   in case pool_results completion futures of
                        None \<Rightarrow> None
                      | Some (Inl e) \<Rightarrow> Some (Inl e)
                      | Some (Inr results) \<Rightarrow>
                          (if results = [] then Some (Inl ValueError_unpack)
                           else Some (Inr
                             (scatter zeros inds (map (\<lambda>(t2, t2e, m0, m0e). t2) results),
                              scatter zeros inds (map (\<lambda>(t2, t2e, m0, m0e). t2e) results),
                              scatter zeros inds (map (\<lambda>(t2, t2e, m0, m0e). m0) results),
                              scatter zeros inds (map (\<lambda>(t2, t2e, m0, m0e). m0e) results))))))
           else
             (case idx of
                Idx0 i \<Rightarrow> Some (Inl TypeError_iter_0d)
              | Idx1 inds \<Rightarrow>
                  Some (sequential_loop curve_fit signal echo_list inds (zeros, zeros, zeros, zeros))))"

subsection \<open>The constructor\<close>

text \<open>
  Mask arrays live in a store, addressed by position, because the constructor keeps the
  caller's array itself: \<^verbatim>\<open>self.mask = mask\<close> copies the reference. A mask array is held
  flattened.
\<close>

type_synonym store = "bool list list"

datatype multithread_arg = MT bool | Auto | Other

record T2 =
  T2_pixel_array :: "npfloat ndarray"
  T2_shape :: "nat list"
  T2_n_te :: nat
  T2_n_vox :: nat
  T2_mask :: nat
  T2_echo_list :: "real list"
  T2_multithread :: bool
  T2_t2_map :: "npfloat list"
  T2_t2_err :: "npfloat list"
  T2_m0_map :: "npfloat list"
  T2_m0_err :: "npfloat list"

text \<open>
  \<^verbatim>\<open>T2.__init__\<close>: returns the store after the call with the object or the exception
  (\<open>None\<close> when the call never returns). The boolean-index assignment
  \<^verbatim>\<open>self.mask[np.isnan(np.sum(pixel_array, axis=-1))] = False\<close> writes into the array
  that \<^verbatim>\<open>self.mask\<close> refers to, and raises when the two shapes differ.
\<close>

definition T2_init ::
  "curve_fit \<Rightarrow> nat list \<Rightarrow> store \<Rightarrow> npfloat ndarray \<Rightarrow> real list \<Rightarrow> nat option \<Rightarrow>
   multithread_arg \<Rightarrow> store \<times> (error + T2) option" where
  "T2_init curve_fit completion st pixel_array echo_list mask_arg multithread =
     (if last_axis pixel_array \<noteq> length echo_list then (st, Some (Inl AssertionError_echoes))
      else if multithread = Other then (st, Some (Inl AssertionError_multithread))
      else
        let shape = spatial_shape pixel_array;
            n_te = last_axis pixel_array;
            n_vox = prod_list shape;
            (self_mask, st1) =
               (case mask_arg of
                  None \<Rightarrow> (length st, st @ [replicate n_vox True])
                | Some a \<Rightarrow> (a, st));
            nan_sum = map (\<lambda>row. np_isnan (np_sum row)) (voxel_rows pixel_array)
        in if length (st1 ! self_mask) \<noteq> length nan_sum
           then (st1, Some (Inl IndexError_mask_shape))
           else
             let st2 = st1[self_mask := map2 (\<lambda>m n. if n then False else m) (st1 ! self_mask) nan_sum];
                 mt = (case multithread of
                         Auto \<Rightarrow> (if n_vox > 20 then True else False)
                       | MT b \<Rightarrow> b
                       | Other \<Rightarrow> False)
             in (st2,
                 case fit curve_fit completion shape n_te n_vox (st2 ! self_mask) pixel_array
                        echo_list mt of
                   None \<Rightarrow> None
                 | Some (Inl e) \<Rightarrow> Some (Inl e)
                 | Some (Inr (t2_map, t2_err, m0_map, m0_err)) \<Rightarrow>
                     Some (Inr \<lparr>T2_pixel_array = pixel_array, T2_shape = shape, T2_n_te = n_te,
                                T2_n_vox = n_vox, T2_mask = self_mask, T2_echo_list = echo_list,
                                T2_multithread = mt, T2_t2_map = t2_map, T2_t2_err = t2_err,
                                T2_m0_map = m0_map, T2_m0_err = m0_err\<rparr>)))"

section \<open>B0 mapping (ukat/mapping/b0.py, methods/tools.py)\<close>

text \<open>Phase values are finite floats, modelled as reals.\<close>

fun amax :: "real list \<Rightarrow> error + real" where
  "amax [] = Inl ValueError_zero_size"
| "amax (x # xs) = Inr (fold max xs x)"

fun amin :: "real list \<Rightarrow> error + real" where
  "amin [] = Inl ValueError_zero_size"
| "amin (x # xs) = Inr (fold min xs x)"

text \<open>\<^verbatim>\<open>convert_to_pi_range\<close>; \<^verbatim>\<open>np.amax\<close> raises on an array without elements.\<close>

definition convert_to_pi_range :: "real list \<Rightarrow> error + real list" where
  "convert_to_pi_range pixel_array =
     (case amax pixel_array of
        Inl e \<Rightarrow> Inl e
      | Inr hi \<Rightarrow>
          (case amin pixel_array of
             Inl e \<Rightarrow> Inl e
           | Inr lo \<Rightarrow>
               if hi > 3.2 \<and> lo < - 3.2
               then Inr (map (\<lambda>x. (2.0 * pi * (x - lo) / (hi - lo)) - pi) pixel_array)
               else Inr pixel_array))"

text \<open>
  A numpy masked array: every entry is a valid value or masked (\<open>None\<close>). What numpy keeps
  as data under a masked entry is not part of the model.
\<close>

type_synonym marray = "real option list"

text \<open>
  \<^verbatim>\<open>np.ma.masked_array(data, mask=mask)\<close>: a true mask entry marks the data entry invalid;
  \<^verbatim>\<open>mask=None\<close> masks nothing; a mask of one element is resized to the data's shape; a
  mask of any other size raises MaskError.
\<close>

definition masked_array :: "real list \<Rightarrow> bool list option \<Rightarrow> error + marray" where
  "masked_array data mask_arg =
     (case mask_arg of
        None \<Rightarrow> Inr (map Some data)
      | Some m \<Rightarrow>
          if length m = length data
          then Inr (map2 (\<lambda>x b. if b then None else Some x) data m)
          else if length m = 1
          then Inr (map (\<lambda>x. if m ! 0 then None else Some x) data)
          else Inl MaskError)"

text \<open>
  Subtraction of two masked arrays: masked where either operand is. The two phase images
  have one shape whenever the unwrapper returns an image of the shape of its input, as
  \<^verbatim>\<open>unwrap_phase\<close> does; for another unwrapper the subtraction of images of different
  sizes raises (the broadcast from a one-element image apart).
\<close>

definition ma_subtract :: "marray \<Rightarrow> marray \<Rightarrow> error + marray" where
  "ma_subtract a b =
     (if length a \<noteq> length b then Inl ValueError_broadcast
      else Inr (map2 (\<lambda>x y. case x of None \<Rightarrow> None
                                | Some u \<Rightarrow> (case y of None \<Rightarrow> None | Some v \<Rightarrow> Some (u - v))) a b))"

text \<open>
  Division of a masked array by a scalar: \<^verbatim>\<open>numpy.ma\<close> masks the entries whose division
  is outside the domain or not finite, that is every entry when the divisor is zero (a
  plain array would hold NaN or an infinity there).
\<close>

definition ma_true_divide :: "marray \<Rightarrow> real \<Rightarrow> marray" where
  "ma_true_divide a s =
     map (\<lambda>x. case x of None \<Rightarrow> None | Some u \<Rightarrow> if s = 0 then None else Some (u / s)) a"

text \<open>
  \<^verbatim>\<open>skimage.restoration.unwrap_phase(image, wrap_around=...)\<close> is external: a parameter
  of the model, any function of the flag and the masked image that returns a masked
  image or raises.
\<close>

type_synonym unwrap_phase = "bool \<Rightarrow> marray \<Rightarrow> error + marray"

record B0 =
  B0_pixel_array :: "real ndarray"
  B0_shape :: "nat list"
  B0_n_te :: nat
  B0_mask :: "bool list"
  B0_delta_te :: real
  B0_phase0 :: marray
  B0_phase1 :: marray
  B0_phase_difference :: marray
  B0_b0_map :: marray

text \<open>
  The phase image of echo \<open>k\<close> as the constructor builds it:
  \<^verbatim>\<open>np.ma.masked_array(convert_to_pi_range(np.squeeze(pixel_array[..., k])), mask=mask)\<close>.
\<close>

definition phase_image :: "real ndarray \<Rightarrow> nat \<Rightarrow> bool list option \<Rightarrow> error + marray" where
  "phase_image pixel_array k mask_arg =
     (case convert_to_pi_range (map (\<lambda>row. row ! k) (voxel_rows pixel_array)) of
        Inl e \<Rightarrow> Inl e
      | Inr radians \<Rightarrow> masked_array radians mask_arg)"

text \<open>\<^verbatim>\<open>B0.__init__\<close> (the affine is passed through untouched and left out).\<close>

definition B0_init ::
  "unwrap_phase \<Rightarrow> real ndarray \<Rightarrow> real list \<Rightarrow> bool list option \<Rightarrow> bool \<Rightarrow> bool \<Rightarrow> error + B0" where
  "B0_init unwrap_phase pixel_array echo_list mask_arg unwrap wrap_around =
     (let shape = spatial_shape pixel_array;
          n_te = last_axis pixel_array;
          self_mask = (case mask_arg of None \<Rightarrow> replicate (prod_list shape) True | Some m \<Rightarrow> m)
      in if n_te = length echo_list \<and> n_te = 2 then
           (let echo0 = echo_list ! 0;
                echo1 = echo_list ! 1;
                delta_te = \<bar>echo1 - echo0\<bar> * 0.001
            in case phase_image pixel_array 0 mask_arg of
                 Inl e \<Rightarrow> Inl e
               | Inr p0 \<Rightarrow>
                   (case phase_image pixel_array 1 mask_arg of
                      Inl e \<Rightarrow> Inl e
                    | Inr p1 \<Rightarrow>
                        (case (if unwrap then unwrap_phase wrap_around p0 else Inr p0) of
                           Inl e \<Rightarrow> Inl e
                         | Inr phase0 \<Rightarrow>
                             (case (if unwrap then unwrap_phase wrap_around p1 else Inr p1) of
                                Inl e \<Rightarrow> Inl e
                              | Inr phase1 \<Rightarrow>
                                  (case ma_subtract phase1 phase0 of
                                     Inl e \<Rightarrow> Inl e
                                   | Inr phase_difference \<Rightarrow>
                                       Inr \<lparr>B0_pixel_array = pixel_array, B0_shape = shape,
                                            B0_n_te = n_te, B0_mask = self_mask,
                                            B0_delta_te = delta_te, B0_phase0 = phase0,
                                            B0_phase1 = phase1,
                                            B0_phase_difference = phase_difference,
                                            B0_b0_map = ma_true_divide phase_difference
                                                          (2 * pi * delta_te)\<rparr>)))))
         else Inl ValueError_two_echoes)"

section \<open>Auxiliary notions for the proofs\<close>

text \<open>
  The outcome of a list of calls made one after the other: the first exception, or the
  list of all results.
\<close>

fun first_error :: "(error + 'r) list \<Rightarrow> error + 'r list" where
  "first_error [] = Inr []"
| "first_error (Inl e # xs) = Inl e"
| "first_error (Inr r # xs) = (case first_error xs of Inl e \<Rightarrow> Inl e | Inr rs \<Rightarrow> Inr (r # rs))"

text \<open>
  The mask after the constructor has cleared the voxels whose sum over time is NaN.
\<close>

definition effective_mask :: "bool list \<Rightarrow> npfloat list list \<Rightarrow> bool list" where
  "effective_mask m rows = map2 (\<lambda>m n. if n then False else m) m (map (\<lambda>row. np_isnan (np_sum row)) rows)"

text \<open>\<^verbatim>\<open>np.ma.getmaskarray\<close>: the mask of a masked array, true where the entry is invalid.\<close>

definition getmaskarray :: "marray \<Rightarrow> bool list" where
  "getmaskarray a = map (\<lambda>x. x = None) a"



section \<open>Properties\<close>

subsection \<open>The per-voxel fit\<close>

text \<open>
  Claim C3. Whatever the signal and the echo times: when the optimiser raises its
  convergence failure (RuntimeError), and when it converges with a fitted T2 of at least
  699 = 700 - 1, the per-voxel fit returns the all-zero tuple and raises nothing; when it
  converges with a T2 below 699, it returns the fitted T2 and M0, each followed by the
  square root of its diagonal entry of the covariance matrix.
\<close>

theorem fit_signal_failure_policy:
  "(curve_fit te sig = RuntimeError \<longrightarrow>
      fit_signal curve_fit sig te = Inr (Fin 0, Fin 0, Fin 0, Fin 0)) \<and>
   (curve_fit te sig = Converged (t2, m0) ((c00, c01), (c10, c11)) \<and> 699 \<le> t2 \<longrightarrow>
      fit_signal curve_fit sig te = Inr (Fin 0, Fin 0, Fin 0, Fin 0)) \<and>
   (curve_fit te sig = Converged (t2, m0) ((c00, c01), (c10, c11)) \<and> t2 < 699 \<longrightarrow>
      fit_signal curve_fit sig te = Inr (Fin t2, np_sqrt c00, Fin m0, np_sqrt c11))"
  by (simp add: fit_signal_def)

theorem fit_signal_failure_policy_witness:
  "fit_signal (\<lambda>te sig. RuntimeError) [Fin 100, Fin 50] [10, 20]
     = Inr (Fin 0, Fin 0, Fin 0, Fin 0) \<and>
   fit_signal (\<lambda>te sig. Converged (699, 5000) ((Fin 4, Fin 0), (Fin 0, Fin 9)))
       [Fin 100, Fin 50] [10, 20]
     = Inr (Fin 0, Fin 0, Fin 0, Fin 0) \<and>
   fit_signal (\<lambda>te sig. Converged (50, 5000) ((Fin 4, Fin 0), (Fin 0, Fin 9)))
       [Fin 100, Fin 50] [10, 20]
     = Inr (Fin 50, Fin 2, Fin 5000, Fin 3)"
  using
    fit_signal_failure_policy [of "\<lambda>te sig. RuntimeError" "[10, 20]" "[Fin 100, Fin 50]"]
    fit_signal_failure_policy [of "\<lambda>te sig. Converged (699, 5000) ((Fin 4, Fin 0), (Fin 0, Fin 9))"
      "[10, 20]" "[Fin 100, Fin 50]" 699 5000 "Fin 4" "Fin 0" "Fin 0" "Fin 9"]
    fit_signal_failure_policy [of "\<lambda>te sig. Converged (50, 5000) ((Fin 4, Fin 0), (Fin 0, Fin 9))"
      "[10, 20]" "[Fin 100, Fin 50]" 50 5000 "Fin 4" "Fin 0" "Fin 0" "Fin 9"]
  by simp

text \<open>An exception of the optimiser other than RuntimeError is not caught.\<close>

lemma fit_signal_other_error:
  "curve_fit te sig = OtherError \<Longrightarrow> fit_signal curve_fit sig te = Inl Raised_by_curve_fit"
  by (simp add: fit_signal_def)

subsection \<open>The pool and the sequential loop\<close>

lemma map_of_pool_run:
  assumes "j < length tasks" and "j \<in> set completion"
  shows "map_of (pool_run completion tasks) j = Some (tasks ! j)"
proof -
  have "j \<in> set (filter (\<lambda>j. j < length tasks) completion)"
    using assms by simp
  then show ?thesis
    unfolding pool_run_def by (simp add: map_of_map_restrict)
qed

lemma collect_pool_run:
  assumes "\<forall>j \<in> set js. j < length tasks \<and> j \<in> set completion"
  shows "collect (pool_run completion tasks) js = Some (first_error (map (\<lambda>j. tasks ! j) js))"
  using assms
proof (induction js)
  case Nil
  then show ?case by simp
next
  case (Cons j js)
  then have look: "map_of (pool_run completion tasks) j = Some (tasks ! j)"
    by (simp add: map_of_pool_run)
  from Cons have rest: "collect (pool_run completion tasks) js = Some (first_error (map (\<lambda>j. tasks ! j) js))"
    by simp
  show ?case
    by (cases "tasks ! j") (simp_all add: look rest split: sum.splits)
qed

lemma pool_results_all_finished:
  assumes "list_all (\<lambda>j. j \<in> set completion) [0..<length tasks]"
  shows "pool_results completion tasks = Some (first_error tasks)"
proof -
  have "\<forall>j \<in> set [0..<length tasks]. j < length tasks \<and> j \<in> set completion"
    using assms by (simp add: list_all_iff)
  then have "collect (pool_run completion tasks) [0..<length tasks]
               = Some (first_error (map (\<lambda>j. tasks ! j) [0..<length tasks]))"
    by (rule collect_pool_run)
  then show ?thesis
    using assms by (simp add: pool_results_def map_nth)
qed

lemma pool_results_unfinished:
  assumes "\<not> list_all (\<lambda>j. j \<in> set completion) [0..<length tasks]"
  shows "pool_results completion tasks = None"
  using assms by (simp add: pool_results_def)

lemma scatter_Nil [simp]: "scatter a [] vals = a" "scatter a idx [] = a"
  by (simp_all add: scatter_def)

lemma scatter_Cons [simp]: "scatter a (i # idx) (v # vals) = scatter (a[i := v]) idx vals"
  by (simp add: scatter_def)

lemma length_scatter [simp]: "length (scatter a idx vals) = length a"
proof (induction idx arbitrary: a vals)
  case Nil
  then show ?case by simp
next
  case (Cons i idx)
  then show ?case by (cases vals) simp_all
qed

lemma scatter_nth_other:
  "i \<notin> set idx \<Longrightarrow> scatter a idx vals ! i = a ! i"
proof (induction idx arbitrary: a vals)
  case Nil
  then show ?case by simp
next
  case (Cons k idx)
  then show ?case by (cases vals) simp_all
qed

lemma sequential_loop_scatter:
  "sequential_loop cf signal te inds (a, b, c, d) =
     (case first_error (map (\<lambda>ind. fit_signal cf (signal ! ind) te) inds) of
        Inl e \<Rightarrow> Inl e
      | Inr rs \<Rightarrow>
          Inr (scatter a inds (map (\<lambda>(t2, t2e, m0, m0e). t2) rs),
               scatter b inds (map (\<lambda>(t2, t2e, m0, m0e). t2e) rs),
               scatter c inds (map (\<lambda>(t2, t2e, m0, m0e). m0) rs),
               scatter d inds (map (\<lambda>(t2, t2e, m0, m0e). m0e) rs)))"
proof (induction inds arbitrary: a b c d)
  case Nil
  then show ?case by simp
next
  case (Cons ind inds)
  show ?case
  proof (cases "fit_signal cf (signal ! ind) te")
    case (Inl e)
    then show ?thesis by simp
  next
    case (Inr r)
    obtain t2 t2e m0 m0e where r: "r = (t2, t2e, m0, m0e)"
      by (cases r) auto
    show ?thesis
      using Inr r Cons.IH [of "a[ind := t2]" "b[ind := t2e]" "c[ind := m0]" "d[ind := m0e]"]
      by (simp split: sum.splits)
  qed
qed

lemma first_error_length:
  "first_error xs = Inr rs \<Longrightarrow> length rs = length xs"
proof (induction xs arbitrary: rs)
  case Nil
  then show ?case by simp
next
  case (Cons x xs)
  then show ?case by (cases x) (auto split: sum.splits)
qed

lemma fit_parallel_eq_sequential:
  assumes fin: "list_all (\<lambda>j. j \<in> set completion) [0..<length (argwhere mask_flat)]"
    and ne: "argwhere mask_flat \<noteq> []"
  shows "fit cf completion shape n_te n_vox mask_flat pa te True
         = fit cf completion shape n_te n_vox mask_flat pa te False"
proof (cases "squeeze (argwhere mask_flat)")
  case (Idx0 i)
  then show ?thesis by (simp add: fit_def)
next
  case (Idx1 inds)
  then have inds: "inds = argwhere mask_flat"
    by (simp add: squeeze_def split: list.splits)
  let ?tasks = "map (\<lambda>ind. fit_signal cf (voxel_rows pa ! ind) te) inds"
  have pr: "pool_results completion ?tasks = Some (first_error ?tasks)"
    using fin inds by (intro pool_results_all_finished) simp
  have nonempty: "first_error ?tasks = Inr rs \<Longrightarrow> rs \<noteq> []" for rs
    using first_error_length [of ?tasks rs] ne inds by auto
  show ?thesis
  proof (cases "first_error ?tasks")
    case (Inl e)
    then show ?thesis
      using Idx1 pr by (simp add: fit_def sequential_loop_scatter Let_def)
  next
    case (Inr rs)
    then have "rs \<noteq> []" by (rule nonempty)
    then show ?thesis
      using Idx1 pr Inr by (simp add: fit_def sequential_loop_scatter Let_def)
  qed
qed

text \<open>
  Claim C1. The sequential and the pool path give the same four maps whenever at least
  one voxel is selected, whatever the order in which the pool finishes its tasks (lemma
  \<open>fit_parallel_eq_sequential\<close>). With no voxel selected they differ: the sequential
  path returns the zero maps, the pool path raises on unpacking the empty
  \<^verbatim>\<open>zip(*results)\<close>. Here on two voxels and a caller mask that is false everywhere.
\<close>

theorem parallel_raises_on_empty_selection:
  "snd (T2_init cf order [[False, False]]
          \<lparr>spatial_shape = [2], last_axis = 2,
           voxel_rows = [[Fin 2, Fin 1], [Fin 100, Fin 50]]\<rparr> [10, 20] (Some 0) (MT False))
     = Some (Inr \<lparr>T2_pixel_array = \<lparr>spatial_shape = [2], last_axis = 2,
                      voxel_rows = [[Fin 2, Fin 1], [Fin 100, Fin 50]]\<rparr>,
                    T2_shape = [2], T2_n_te = 2, T2_n_vox = 2, T2_mask = 0,
                    T2_echo_list = [10, 20], T2_multithread = False,
                    T2_t2_map = [Fin 0, Fin 0], T2_t2_err = [Fin 0, Fin 0],
                    T2_m0_map = [Fin 0, Fin 0], T2_m0_err = [Fin 0, Fin 0]\<rparr>) \<and>
   snd (T2_init cf order [[False, False]]
          \<lparr>spatial_shape = [2], last_axis = 2,
           voxel_rows = [[Fin 2, Fin 1], [Fin 100, Fin 50]]\<rparr> [10, 20] (Some 0) (MT True))
     = Some (Inl ValueError_unpack)"
  by (simp add: T2_init_def fit_def squeeze_def argwhere_def np_sum_def pool_results_def
      pool_run_def Let_def eval_nat_numeral)

subsection \<open>Excluded voxels\<close>

lemma np_add_NaN_right [simp]: "np_add x NaN = NaN"
  by (cases x) simp_all

lemma foldl_np_add_NaN [simp]: "foldl np_add NaN row = NaN"
  by (induction row) simp_all

lemma foldl_np_add_contains_NaN:
  "NaN \<in> set row \<Longrightarrow> foldl np_add acc row = NaN"
  by (induction row arbitrary: acc) auto

lemma np_sum_NaN: "NaN \<in> set row \<Longrightarrow> np_isnan (np_sum row)"
  by (simp add: np_sum_def foldl_np_add_contains_NaN)

lemma set_argwhere: "set (argwhere m) = {i. i < length m \<and> m ! i}"
  by (auto simp: argwhere_def)

lemma squeeze_Idx1: "squeeze w = Idx1 inds \<Longrightarrow> inds = w"
  by (simp add: squeeze_def split: list.splits)

lemma fit_zero_outside_mask:
  assumes ok: "fit cf completion shape n_te n_vox mask_flat pa te mt = Some (Inr (a, b, c, d))"
    and i: "i < n_vox"
    and out: "\<not> (i < length mask_flat \<and> mask_flat ! i)"
  shows "a ! i = Fin 0 \<and> b ! i = Fin 0 \<and> c ! i = Fin 0 \<and> d ! i = Fin 0"
proof (cases "squeeze (argwhere mask_flat)")
  case (Idx0 k)
  then show ?thesis
    using ok by (simp add: fit_def Let_def split: if_splits)
next
  case (Idx1 inds)
  then have "inds = argwhere mask_flat" by (rule squeeze_Idx1)
  then have notin: "i \<notin> set inds"
    using out by (simp add: set_argwhere)
  have z: "scatter (replicate n_vox (Fin 0)) inds vals ! i = Fin 0" for vals
    using notin i by (simp add: scatter_nth_other)
  show ?thesis
  proof (cases mt)
    case True
    then show ?thesis
      using ok Idx1 z
      by (auto simp: fit_def Let_def split: if_splits option.splits sum.splits)
  next
    case False
    then show ?thesis
      using ok Idx1 z
      by (auto simp: fit_def Let_def sequential_loop_scatter split: if_splits sum.splits)
  qed
qed

lemma fit_length:
  assumes ok: "fit cf completion shape n_te n_vox mask_flat pa te mt = Some (Inr (a, b, c, d))"
  shows "length a = n_vox \<and> length b = n_vox \<and> length c = n_vox \<and> length d = n_vox"
proof (cases "squeeze (argwhere mask_flat)")
  case (Idx0 k)
  then show ?thesis
    using ok by (simp add: fit_def Let_def split: if_splits)
next
  case (Idx1 inds)
  show ?thesis
  proof (cases mt)
    case True
    then show ?thesis
      using ok Idx1
      by (auto simp: fit_def Let_def split: if_splits option.splits sum.splits)
  next
    case False
    then show ?thesis
      using ok Idx1
      by (auto simp: fit_def Let_def sequential_loop_scatter split: if_splits sum.splits)
  qed
qed

lemma effective_mask_nth:
  assumes "i < length m" "i < length rows"
  shows "effective_mask m rows ! i = (m ! i \<and> \<not> np_isnan (np_sum (rows ! i)))"
  using assms by (simp add: effective_mask_def)

lemma length_effective_mask [simp]:
  "length (effective_mask m rows) = min (length m) (length rows)"
  by (simp add: effective_mask_def)

lemma T2_init_Some:
  assumes "last_axis pa = length te" "mt \<noteq> Other" "a < length st"
    "length (st ! a) = length (voxel_rows pa)"
  shows "T2_init cf completion st pa te (Some a) mt =
     (st[a := effective_mask (st ! a) (voxel_rows pa)],
      case fit cf completion (spatial_shape pa) (last_axis pa) (prod_list (spatial_shape pa))
             (effective_mask (st ! a) (voxel_rows pa)) pa te
             (case mt of Auto \<Rightarrow> 20 < prod_list (spatial_shape pa) | MT b \<Rightarrow> b | Other \<Rightarrow> False) of
        None \<Rightarrow> None
      | Some (Inl e) \<Rightarrow> Some (Inl e)
      | Some (Inr (t2_map, t2_err, m0_map, m0_err)) \<Rightarrow>
          Some (Inr \<lparr>T2_pixel_array = pa, T2_shape = spatial_shape pa, T2_n_te = last_axis pa,
                     T2_n_vox = prod_list (spatial_shape pa), T2_mask = a, T2_echo_list = te,
                     T2_multithread = (case mt of Auto \<Rightarrow> 20 < prod_list (spatial_shape pa) | MT b \<Rightarrow> b | Other \<Rightarrow> False),
                     T2_t2_map = t2_map, T2_t2_err = t2_err,
                     T2_m0_map = m0_map, T2_m0_err = m0_err\<rparr>))"
  using assms by (cases mt) (simp_all add: T2_init_def Let_def effective_mask_def split: option.split sum.split)

lemma T2_init_None:
  assumes "last_axis pa = length te" "mt \<noteq> Other"
    "length (voxel_rows pa) = prod_list (spatial_shape pa)"
  shows "T2_init cf completion st pa te None mt =
     (st @ [effective_mask (replicate (prod_list (spatial_shape pa)) True) (voxel_rows pa)],
      case fit cf completion (spatial_shape pa) (last_axis pa) (prod_list (spatial_shape pa))
             (effective_mask (replicate (prod_list (spatial_shape pa)) True) (voxel_rows pa)) pa te
             (case mt of Auto \<Rightarrow> 20 < prod_list (spatial_shape pa) | MT b \<Rightarrow> b | Other \<Rightarrow> False) of
        None \<Rightarrow> None
      | Some (Inl e) \<Rightarrow> Some (Inl e)
      | Some (Inr (t2_map, t2_err, m0_map, m0_err)) \<Rightarrow>
          Some (Inr \<lparr>T2_pixel_array = pa, T2_shape = spatial_shape pa, T2_n_te = last_axis pa,
                     T2_n_vox = prod_list (spatial_shape pa), T2_mask = length st, T2_echo_list = te,
                     T2_multithread = (case mt of Auto \<Rightarrow> 20 < prod_list (spatial_shape pa) | MT b \<Rightarrow> b | Other \<Rightarrow> False),
                     T2_t2_map = t2_map, T2_t2_err = t2_err,
                     T2_m0_map = m0_map, T2_m0_err = m0_err\<rparr>))"
  using assms by (cases mt) (simp_all add: T2_init_def Let_def effective_mask_def split: option.split sum.split)

lemma T2_init_assert_echoes:
  "last_axis pa \<noteq> length te \<Longrightarrow>
   T2_init cf completion st pa te mask_arg mt = (st, Some (Inl AssertionError_echoes))"
  by (simp add: T2_init_def)

lemma T2_init_assert_multithread:
  "last_axis pa = length te \<Longrightarrow>
   T2_init cf completion st pa te mask_arg Other = (st, Some (Inl AssertionError_multithread))"
  by (simp add: T2_init_def)

lemma T2_init_index_error:
  "last_axis pa = length te \<Longrightarrow> mt \<noteq> Other \<Longrightarrow> length (st ! a) \<noteq> length (voxel_rows pa) \<Longrightarrow>
   T2_init cf completion st pa te (Some a) mt = (st, Some (Inl IndexError_mask_shape))"
  by (simp add: T2_init_def Let_def)

lemma T2_init_returns_object:
  assumes ok: "T2_init cf completion st pa te mask_arg mt = (st', Some (Inr obj))"
  shows "last_axis pa = length te" and "mt \<noteq> Other"
    and "mask_arg = Some a \<Longrightarrow> length (st ! a) = length (voxel_rows pa)"
proof -
  show 1: "last_axis pa = length te"
    using ok T2_init_assert_echoes [of pa te cf completion st mask_arg mt] by auto
  show 2: "mt \<noteq> Other"
    using ok 1 T2_init_assert_multithread [of pa te cf completion st mask_arg] by auto
  show "length (st ! a) = length (voxel_rows pa)" if "mask_arg = Some a"
    using ok 1 2 that T2_init_index_error [of pa te mt st a cf completion] by auto
qed

lemma excluded_voxels_are_zero:
  assumes ok: "T2_init cf completion st pa te mask_arg mt = (st', Some (Inr obj))"
    and wf: "wf_ndarray pa"
    and ref: "case mask_arg of None \<Rightarrow> True | Some a \<Rightarrow> a < length st"
    and i: "i < prod_list (spatial_shape pa)"
    and excl: "(case mask_arg of None \<Rightarrow> False | Some a \<Rightarrow> \<not> st ! a ! i)
               \<or> NaN \<in> set (voxel_rows pa ! i)"
  shows "T2_t2_map obj ! i = Fin 0 \<and> T2_t2_err obj ! i = Fin 0 \<and>
         T2_m0_map obj ! i = Fin 0 \<and> T2_m0_err obj ! i = Fin 0"
proof -
  note pre = T2_init_returns_object [OF ok]
  have len: "length (voxel_rows pa) = prod_list (spatial_shape pa)"
    using wf by (simp add: wf_ndarray_def)
  define m0 where "m0 = (case mask_arg of None \<Rightarrow> replicate (prod_list (spatial_shape pa)) True
                          | Some a \<Rightarrow> st ! a)"
  define em where "em = effective_mask m0 (voxel_rows pa)"
  define mtb where "mtb = (case mt of Auto \<Rightarrow> 20 < prod_list (spatial_shape pa) | MT b \<Rightarrow> b | Other \<Rightarrow> False)"
  have lm0: "length m0 = length (voxel_rows pa)"
    using pre(3) len by (cases mask_arg) (simp_all add: m0_def)
  have out: "\<not> (i < length em \<and> em ! i)"
  proof (cases "NaN \<in> set (voxel_rows pa ! i)")
    case True
    then show ?thesis
      using i len lm0 by (simp add: em_def effective_mask_nth np_sum_NaN)
  next
    case False
    with excl obtain a where "mask_arg = Some a" "\<not> st ! a ! i"
      by (cases mask_arg) auto
    then show ?thesis
      using i len lm0 by (simp add: em_def effective_mask_nth m0_def)
  qed
  have "\<exists>a b c d. fit cf completion (spatial_shape pa) (last_axis pa) (prod_list (spatial_shape pa))
            em pa te mtb = Some (Inr (a, b, c, d)) \<and>
          T2_t2_map obj = a \<and> T2_t2_err obj = b \<and> T2_m0_map obj = c \<and> T2_m0_err obj = d"
  proof (cases mask_arg)
    case None
    show ?thesis
      using ok T2_init_None [OF pre(1) pre(2) len, of cf completion st]
      unfolding None em_def m0_def mtb_def
      by (auto split: option.splits sum.splits)
  next
    case (Some a)
    then have "a < length st" using ref by simp
    then show ?thesis
      using ok T2_init_Some [OF pre(1) pre(2) _ pre(3) [OF Some], of cf completion]
      unfolding Some em_def m0_def mtb_def
      by (auto split: option.splits sum.splits)
  qed
  then obtain a b c d where
    f: "fit cf completion (spatial_shape pa) (last_axis pa) (prod_list (spatial_shape pa))
            em pa te mtb = Some (Inr (a, b, c, d))"
    and o: "T2_t2_map obj = a" "T2_t2_err obj = b" "T2_m0_map obj = c" "T2_m0_err obj = d"
    by blast
  show ?thesis
    using fit_zero_outside_mask [OF f i out] o by simp
qed

text \<open>
  Claim C4. Whenever the constructor returns an object, every position that the caller's
  mask leaves out, or whose time series holds a NaN, is zero in all four maps (lemma
  \<open>excluded_voxels_are_zero\<close>). But the exclusion can make the constructor raise: when
  it leaves exactly one voxel to fit, the squeezed index array is 0-d and the loop over
  it raises TypeError, in both execution modes. Here on two voxels, the first with a NaN,
  no caller mask and the mode \<^verbatim>\<open>'auto'\<close>: the store holds the new mask, and no maps exist.
\<close>

theorem exclusion_to_one_voxel_raises:
  "T2_init cf order []
     \<lparr>spatial_shape = [2], last_axis = 2, voxel_rows = [[NaN, Fin 1], [Fin 100, Fin 50]]\<rparr>
     [10, 20] None Auto
   = ([[False, True]], Some (Inl TypeError_iter_0d))"
  by (simp add: T2_init_def fit_def squeeze_def argwhere_def np_sum_def Let_def eval_nat_numeral)

text \<open>
  Claim C9. A call with a caller's mask that passes the two assertions and the shape
  check writes into the caller's array: after the call the array at the caller's address
  is the old mask with the voxels cleared whose sum over time is NaN, every other array
  of the store is as before, and the object's \<^verbatim>\<open>mask\<close> attribute is that same address, not
  a copy. This holds whether or not the fit that follows raises.
\<close>

theorem T2_init_writes_caller_mask:
  assumes "last_axis pa = length te" and "mt \<noteq> Other" and "a < length st"
    and "length (st ! a) = length (voxel_rows pa)"
  shows "fst (T2_init cf completion st pa te (Some a) mt)
           = st[a := map2 (\<lambda>m row. m \<and> \<not> np_isnan (np_sum row)) (st ! a) (voxel_rows pa)] \<and>
         (\<forall>obj. snd (T2_init cf completion st pa te (Some a) mt) = Some (Inr obj) \<longrightarrow>
                T2_mask obj = a)"
proof -
  have "effective_mask (st ! a) (voxel_rows pa)
          = map2 (\<lambda>m row. m \<and> \<not> np_isnan (np_sum row)) (st ! a) (voxel_rows pa)"
    by (simp add: effective_mask_def zip_map2 cong: if_cong) (auto intro: map_cong)
  then show ?thesis
    using T2_init_Some [OF assms, of cf completion]
    by (auto split: option.splits sum.splits)
qed

text \<open>Three voxels, the second with a NaN: the caller's all-true mask is changed.\<close>

theorem T2_init_writes_caller_mask_witness:
  "T2_init (\<lambda>te sig. RuntimeError) [] [[True, True, True]]
     \<lparr>spatial_shape = [3], last_axis = 2,
      voxel_rows = [[Fin 100, Fin 50], [NaN, Fin 1], [Fin 80, Fin 40]]\<rparr>
     [10, 20] (Some 0) (MT False)
   = ([[True, True, True]]
        [0 := map2 (\<lambda>m row. m \<and> \<not> np_isnan (np_sum row)) [True, True, True]
                [[Fin 100, Fin 50], [NaN, Fin 1], [Fin 80, Fin 40]]],
      Some (Inr \<lparr>T2_pixel_array = \<lparr>spatial_shape = [3], last_axis = 2,
                         voxel_rows = [[Fin 100, Fin 50], [NaN, Fin 1], [Fin 80, Fin 40]]\<rparr>,
                 T2_shape = [3], T2_n_te = 2, T2_n_vox = 3, T2_mask = 0,
                 T2_echo_list = [10, 20], T2_multithread = False,
                 T2_t2_map = [Fin 0, Fin 0, Fin 0], T2_t2_err = [Fin 0, Fin 0, Fin 0],
                 T2_m0_map = [Fin 0, Fin 0, Fin 0], T2_m0_err = [Fin 0, Fin 0, Fin 0]\<rparr>)) \<and>
   [[True, True, True]]
        [0 := map2 (\<lambda>m row. m \<and> \<not> np_isnan (np_sum row)) [True, True, True]
                [[Fin 100, Fin 50], [NaN, Fin 1], [Fin 80, Fin 40]]]
     = [[True, False, True]]"
proof -
  have ev: "T2_init (\<lambda>te sig. RuntimeError) [] [[True, True, True]]
     \<lparr>spatial_shape = [3], last_axis = 2,
      voxel_rows = [[Fin 100, Fin 50], [NaN, Fin 1], [Fin 80, Fin 40]]\<rparr>
     [10, 20] (Some 0) (MT False)
   = ([[True, False, True]],
      Some (Inr \<lparr>T2_pixel_array = \<lparr>spatial_shape = [3], last_axis = 2,
                         voxel_rows = [[Fin 100, Fin 50], [NaN, Fin 1], [Fin 80, Fin 40]]\<rparr>,
                 T2_shape = [3], T2_n_te = 2, T2_n_vox = 3, T2_mask = 0,
                 T2_echo_list = [10, 20], T2_multithread = False,
                 T2_t2_map = [Fin 0, Fin 0, Fin 0], T2_t2_err = [Fin 0, Fin 0, Fin 0],
                 T2_m0_map = [Fin 0, Fin 0, Fin 0], T2_m0_err = [Fin 0, Fin 0, Fin 0]\<rparr>))"
    by (simp add: T2_init_def fit_def squeeze_def argwhere_def np_sum_def Let_def
        fit_signal_def eval_nat_numeral)
  show ?thesis
    using T2_init_writes_caller_mask [of
      "\<lparr>spatial_shape = [3], last_axis = 2,
        voxel_rows = [[Fin 100, Fin 50], [NaN, Fin 1], [Fin 80, Fin 40]]\<rparr>"
      "[10, 20]" "MT False" 0 "[[True, True, True]]" "\<lambda>te sig. RuntimeError" "[]"] ev
    by (simp add: np_sum_def)
qed

text \<open>
  In the mode \<^verbatim>\<open>'auto'\<close> the constructor behaves as with
  \<^verbatim>\<open>multithread = (n_vox > 20)\<close>, where \<^verbatim>\<open>n_vox\<close> is the product of the spatial
  dimensions: the number of all voxels of the map, not of the voxels that the mask
  selects.
\<close>

lemma auto_mode_gates_on_total_voxel_count:
  "T2_init cf completion st pa te mask_arg Auto
     = T2_init cf completion st pa te mask_arg (MT (20 < prod_list (spatial_shape pa))) \<and>
   (\<forall>st' obj. T2_init cf completion st pa te mask_arg Auto = (st', Some (Inr obj)) \<longrightarrow>
       T2_multithread obj = (20 < prod_list (spatial_shape pa)))"
proof -
  have eq: "T2_init cf completion st pa te mask_arg Auto
     = T2_init cf completion st pa te mask_arg (MT (20 < prod_list (spatial_shape pa)))"
    by (cases mask_arg) (simp_all add: T2_init_def Let_def split: option.split sum.split)
  have "T2_multithread obj = (20 < prod_list (spatial_shape pa))"
    if "T2_init cf completion st pa te mask_arg Auto = (st', Some (Inr obj))" for st' obj
    using that
    by (auto simp: T2_init_def Let_def split: if_splits option.splits sum.splits prod.splits)
  then show ?thesis using eq by blast
qed

lemma argwhere_21: "argwhere (True # True # replicate 19 False) = [0, 1]"
  by (simp add: argwhere_def eval_nat_numeral)

lemma pool_two: "pool_results [Suc 0, 0] [Inr a, Inr b] = Some (Inr [a, b])"
  by (simp add: pool_results_def pool_run_def eval_nat_numeral)

lemma list_update_replicate_same [simp]: "(replicate n z)[i := z] = replicate n z"
proof (rule nth_equalityI)
  show "length ((replicate n z)[i := z]) = length (replicate n z)" by simp
next
  fix k assume "k < length ((replicate n z)[i := z])"
  then show "(replicate n z)[i := z] ! k = replicate n z ! k"
    by (cases "i = k") simp_all
qed

lemma fit_signal_RuntimeError:
  "fit_signal (\<lambda>te sig. RuntimeError) sig te = Inr (Fin 0, Fin 0, Fin 0, Fin 0)"
  by (simp add: fit_signal_def)

lemma np_isnan_sum_2: "np_isnan (np_sum [Fin x, Fin y]) = False"
  by (simp add: np_sum_def)

lemma effective_mask_21:
  "effective_mask (True # True # replicate 19 False) (replicate 21 [Fin 100, Fin 50])
     = True # True # replicate 19 False"
  by (simp add: effective_mask_def np_isnan_sum_2 eval_nat_numeral)

lemma fit_21:
  "fit (\<lambda>te sig. RuntimeError) [Suc 0, 0] [21] 2 21 (True # True # replicate 19 False)
      \<lparr>spatial_shape = [21], last_axis = 2, voxel_rows = replicate 21 [Fin 100, Fin 50]\<rparr>
      [10, 20] True
   = Some (Inr (replicate 21 (Fin 0), replicate 21 (Fin 0), replicate 21 (Fin 0), replicate 21 (Fin 0)))"
  by (simp add: fit_def argwhere_21 squeeze_def fit_signal_RuntimeError pool_two Let_def)

text \<open>
  Claim C2. The docstring of the constructor says that \<^verbatim>\<open>'auto'\<close> decides on the number
  of voxels being fit, and the mask is the voxels to fit; the code compares \<^verbatim>\<open>n_vox\<close>,
  the number of all voxels, with 20. Here on 21 voxels of which the caller's mask
  selects two: the count of voxels to process is 2, at most 20, and the mode resolves
  to the pool.
\<close>

theorem auto_mode_parallel_for_two_selected_voxels:
  "length (argwhere (True # True # replicate 19 False)) = 2 \<and>
   map_option (map_sum id T2_multithread)
     (snd (T2_init (\<lambda>te sig. RuntimeError) [1, 0] [True # True # replicate 19 False]
        \<lparr>spatial_shape = [21], last_axis = 2, voxel_rows = replicate 21 [Fin 100, Fin 50]\<rparr>
        [10, 20] (Some 0) Auto))
     = Some (Inr True)"
proof -
  have "T2_init (\<lambda>te sig. RuntimeError) [1, 0] [True # True # replicate 19 False]
        \<lparr>spatial_shape = [21], last_axis = 2, voxel_rows = replicate 21 [Fin 100, Fin 50]\<rparr>
        [10, 20] (Some 0) Auto
     = ([True # True # replicate 19 False],
        Some (Inr \<lparr>T2_pixel_array = \<lparr>spatial_shape = [21], last_axis = 2, voxel_rows = replicate 21 [Fin 100, Fin 50]\<rparr>,
                   T2_shape = [21], T2_n_te = 2, T2_n_vox = 21, T2_mask = 0,
                   T2_echo_list = [10, 20], T2_multithread = True,
                   T2_t2_map = replicate 21 (Fin 0), T2_t2_err = replicate 21 (Fin 0),
                   T2_m0_map = replicate 21 (Fin 0), T2_m0_err = replicate 21 (Fin 0)\<rparr>))"
    by (subst T2_init_Some) (simp_all add: effective_mask_21 fit_21)
  then show ?thesis
    by (simp add: argwhere_21)
qed

subsection \<open>The phase normaliser\<close>

lemma amax_Max: "xs \<noteq> [] \<Longrightarrow> amax xs = Inr (Max (set xs))"
  by (cases xs) (simp_all add: Max.set_eq_fold [symmetric])

lemma amin_Min: "xs \<noteq> [] \<Longrightarrow> amin xs = Inr (Min (set xs))"
  by (cases xs) (simp_all add: Min.set_eq_fold [symmetric])

lemma convert_to_pi_range_nonempty:
  assumes "xs \<noteq> []"
  shows "convert_to_pi_range xs =
     (if Max (set xs) > 3.2 \<and> Min (set xs) < - 3.2
      then Inr (map (\<lambda>x. 2 * pi * (x - Min (set xs)) / (Max (set xs) - Min (set xs)) - pi) xs)
      else Inr xs)"
  using assms by (simp add: convert_to_pi_range_def amax_Max amin_Min)

lemma convert_to_pi_range_length:
  "convert_to_pi_range xs = Inr ys \<Longrightarrow> length ys = length xs"
proof (cases "xs = []")
  case True
  then show "convert_to_pi_range xs = Inr ys \<Longrightarrow> length ys = length xs"
    by (simp add: convert_to_pi_range_def)
next
  case False
  then show "convert_to_pi_range xs = Inr ys \<Longrightarrow> length ys = length xs"
    by (auto simp: convert_to_pi_range_nonempty split: if_splits)
qed

lemma convert_to_pi_range_in_envelope:
  assumes "xs \<noteq> []" and "\<forall>x \<in> set xs. - 3.2 \<le> x \<and> x \<le> 3.2"
  shows "convert_to_pi_range xs = Inr xs"
proof -
  have "Max (set xs) \<in> set xs" using assms(1) by (intro Max_in) simp_all
  then have "Max (set xs) \<le> 3.2" using assms(2) by blast
  then show ?thesis
    using assms(1) by (simp add: convert_to_pi_range_nonempty)
qed

lemma convert_to_pi_range_rescales:
  assumes ne: "xs \<noteq> []" and hi: "Max (set xs) > 3.2" and lo: "Min (set xs) < - 3.2"
    and ok: "convert_to_pi_range xs = Inr ys" and i: "i < length xs"
  shows "ys ! i = 2 * pi * (xs ! i - Min (set xs)) / (Max (set xs) - Min (set xs)) - pi"
    and "- pi \<le> ys ! i" and "ys ! i \<le> pi"
    and "xs ! i = Min (set xs) \<Longrightarrow> ys ! i = - pi"
    and "xs ! i = Max (set xs) \<Longrightarrow> ys ! i = pi"
proof -
  let ?lo = "Min (set xs)" and ?hi = "Max (set xs)"
  have ys: "ys = map (\<lambda>x. 2 * pi * (x - ?lo) / (?hi - ?lo) - pi) xs"
    using ok ne hi lo by (simp add: convert_to_pi_range_nonempty)
  show eq: "ys ! i = 2 * pi * (xs ! i - ?lo) / (?hi - ?lo) - pi"
    using ys i by simp
  have pos: "0 < ?hi - ?lo" using hi lo by linarith
  have mem: "xs ! i \<in> set xs" using i by simp
  have ge: "?lo \<le> xs ! i" using mem by simp
  have le: "xs ! i \<le> ?hi" using mem by simp
  define r where "r = (xs ! i - ?lo) / (?hi - ?lo)"
  have r0: "0 \<le> r"
    using ge pos by (simp add: r_def)
  have r1: "r \<le> 1"
    using le pos by (simp add: r_def divide_le_eq)
  have form: "ys ! i = 2 * pi * r - pi"
    using eq by (simp add: r_def)
  have "0 \<le> 2 * pi * r"
    using r0 by (intro mult_nonneg_nonneg) simp_all
  then show "- pi \<le> ys ! i" using form by linarith
  have "2 * pi * r \<le> 2 * pi * 1"
    using r1 by (intro mult_left_mono) simp_all
  then show "ys ! i \<le> pi" using form by linarith
  show "ys ! i = - pi" if "xs ! i = ?lo"
    using that eq by simp
  show "ys ! i = pi" if "xs ! i = ?hi"
    using that eq pos by simp
qed

text \<open>
  Claim C7. The normaliser returns an array inside the envelope unchanged (lemma
  \<open>convert_to_pi_range_in_envelope\<close>) and rescales an array that leaves the envelope on
  both sides onto \<open>[-\<pi>, \<pi>]\<close> (lemma \<open>convert_to_pi_range_rescales\<close>). But the test is
  \<^verbatim>\<open>amax > 3.2 and amin < -3.2\<close>: an array that leaves the envelope on one side only is
  returned unchanged, although its range is not within \<open>[-\<pi>, \<pi>]\<close>. Here the array
  \<open>[0, 4]\<close>.
\<close>

theorem one_sided_range_is_not_rescaled: "convert_to_pi_range [0, 4] = Inr [0, 4]"
  by (simp add: convert_to_pi_range_def)

text \<open>On an array without elements \<^verbatim>\<open>np.amax\<close> raises.\<close>

lemma convert_to_pi_range_empty: "convert_to_pi_range [] = Inl ValueError_zero_size"
  by (simp add: convert_to_pi_range_def)

subsection \<open>The field map\<close>

lemma B0_init_Inr:
  assumes "B0_init up pa te mask_arg unwrap w = Inr b"
  shows "\<exists>p0 p1. last_axis pa = 2 \<and> length te = 2 \<and>
           phase_image pa 0 mask_arg = Inr p0 \<and> phase_image pa 1 mask_arg = Inr p1 \<and>
           (if unwrap then up w p0 else Inr p0) = Inr (B0_phase0 b) \<and>
           (if unwrap then up w p1 else Inr p1) = Inr (B0_phase1 b) \<and>
           ma_subtract (B0_phase1 b) (B0_phase0 b) = Inr (B0_phase_difference b) \<and>
           B0_delta_te b = \<bar>te ! 1 - te ! 0\<bar> * 0.001 \<and>
           B0_b0_map b = ma_true_divide (B0_phase_difference b) (2 * pi * B0_delta_te b)"
proof -
  have two: "last_axis pa = length te \<and> last_axis pa = 2"
    using assms by (cases "last_axis pa = length te \<and> last_axis pa = 2") (simp_all add: B0_init_def Let_def)
  obtain p0 where p0: "phase_image pa 0 mask_arg = Inr p0"
    using assms two by (cases "phase_image pa 0 mask_arg") (simp_all add: B0_init_def Let_def)
  obtain p1 where p1: "phase_image pa 1 mask_arg = Inr p1"
    using assms two p0 by (cases "phase_image pa 1 mask_arg") (simp_all add: B0_init_def Let_def)
  obtain q0 where q0: "(if unwrap then up w p0 else Inr p0) = Inr q0"
    using assms two p0 p1
    by (cases "if unwrap then up w p0 else Inr p0") (simp_all add: B0_init_def Let_def)
  obtain q1 where q1: "(if unwrap then up w p1 else Inr p1) = Inr q1"
    using assms two p0 p1 q0
    by (cases "if unwrap then up w p1 else Inr p1") (simp_all add: B0_init_def Let_def)
  obtain pd where pd: "ma_subtract q1 q0 = Inr pd"
    using assms two p0 p1 q0 q1
    by (cases "ma_subtract q1 q0") (simp_all add: B0_init_def Let_def)
  have b: "b = \<lparr>B0_pixel_array = pa, B0_shape = spatial_shape pa, B0_n_te = last_axis pa,
               B0_mask = (case mask_arg of None \<Rightarrow> replicate (prod_list (spatial_shape pa)) True | Some m \<Rightarrow> m),
               B0_delta_te = \<bar>te ! 1 - te ! 0\<bar> * 0.001, B0_phase0 = q0, B0_phase1 = q1,
               B0_phase_difference = pd,
               B0_b0_map = ma_true_divide pd (2 * pi * (\<bar>te ! 1 - te ! 0\<bar> * 0.001))\<rparr>"
    using assms two p0 p1 q0 q1 pd by (simp add: B0_init_def Let_def)
  show ?thesis
    using two p0 p1 q0 q1 pd by (simp add: b)
qed

text \<open>
  Claim C5. Unless the last axis of the array has length two and there are two echo
  times, the constructor raises the ValueError of its last branch and builds no object,
  whatever the other arguments are.
\<close>

theorem B0_requires_two_echoes:
  "\<not> (last_axis pa = 2 \<and> length echo_list = 2) \<Longrightarrow>
   B0_init up pa echo_list mask_arg unwrap w = Inl ValueError_two_echoes"
  by (auto simp: B0_init_def Let_def)

text \<open>Three volumes with three echo times; one with one; two volumes with three echo times.\<close>

theorem B0_requires_two_echoes_witness:
  "B0_init (\<lambda>w a. Inr a)
     \<lparr>spatial_shape = [2], last_axis = 3, voxel_rows = [[1, 2, 3], [1, 2, 3]]\<rparr> [5, 7, 9]
     None True False = Inl ValueError_two_echoes \<and>
   B0_init (\<lambda>w a. Inr a)
     \<lparr>spatial_shape = [2], last_axis = 1, voxel_rows = [[1], [1]]\<rparr> [5]
     None True False = Inl ValueError_two_echoes \<and>
   B0_init (\<lambda>w a. Inr a)
     \<lparr>spatial_shape = [2], last_axis = 2, voxel_rows = [[1, 2], [1, 2]]\<rparr> [5, 7, 9]
     None True False = Inl ValueError_two_echoes"
  using
    B0_requires_two_echoes [of "\<lparr>spatial_shape = [2], last_axis = 3, voxel_rows = [[1, 2, 3], [1, 2, 3]]\<rparr>"
      "[5, 7, 9]" "\<lambda>w a. Inr a" None True False]
    B0_requires_two_echoes [of "\<lparr>spatial_shape = [2], last_axis = 1, voxel_rows = [[1], [1]]\<rparr>"
      "[5]" "\<lambda>w a. Inr a" None True False]
    B0_requires_two_echoes [of "\<lparr>spatial_shape = [2], last_axis = 2, voxel_rows = [[1, 2], [1, 2]]\<rparr>"
      "[5, 7, 9]" "\<lambda>w a. Inr a" None True False]
  by simp

lemma ma_subtract_length:
  assumes "ma_subtract a c = Inr d"
  shows "length a = length d" and "length c = length d"
  using assms by (auto simp: ma_subtract_def split: if_splits)



lemma length_ma_true_divide [simp]: "length (ma_true_divide a s) = length a"
  by (simp add: ma_true_divide_def)







lemma phase_image_Inr:
  assumes "phase_image pa k mask_arg = Inr p"
  shows "\<exists>r. convert_to_pi_range (map (\<lambda>row. row ! k) (voxel_rows pa)) = Inr r \<and>
             masked_array r mask_arg = Inr p \<and> length r = length (voxel_rows pa)"
  using assms
  by (cases "convert_to_pi_range (map (\<lambda>row. row ! k) (voxel_rows pa))")
     (auto simp: phase_image_def dest: convert_to_pi_range_length)


lemma length_getmaskarray [simp]: "length (getmaskarray p) = length p"
  by (simp add: getmaskarray_def)

lemmas b0_eval = B0_init_def phase_image_def convert_to_pi_range_def masked_array_def
  ma_subtract_def ma_true_divide_def Let_def


lemma getmaskarray_eq_length:
  "getmaskarray q = getmaskarray a \<Longrightarrow> length q = length a"
  by (metis length_getmaskarray)








text \<open>
  Claim C6. For every call that the constructor accepts: the first phase image is the
  masked, normalised (and, when asked, unwrapped) volume of the first echo, the second
  that of the second echo; \<^verbatim>\<open>delta_te\<close> is the absolute difference of the two echo times
  times 0.001; the phase difference is the second phase image minus the first, entry by
  entry; the field map is the phase difference divided by \<open>2 \<pi> delta_te\<close>, entry by
  entry. An entry that is masked in a phase image is masked in the field map, and the
  division by a zero \<^verbatim>\<open>delta_te\<close> masks every entry.
\<close>

theorem B0_field_map_formula:
  assumes ok: "B0_init up pa te mask_arg unwrap w = Inr b"
  shows "\<exists>r0 r1 p0 p1.
     convert_to_pi_range (map (\<lambda>row. row ! 0) (voxel_rows pa)) = Inr r0 \<and>
     convert_to_pi_range (map (\<lambda>row. row ! 1) (voxel_rows pa)) = Inr r1 \<and>
     masked_array r0 mask_arg = Inr p0 \<and> masked_array r1 mask_arg = Inr p1 \<and>
     (if unwrap then up w p0 else Inr p0) = Inr (B0_phase0 b) \<and>
     (if unwrap then up w p1 else Inr p1) = Inr (B0_phase1 b) \<and>
     length (B0_phase0 b) = length (B0_phase1 b) \<and>
     B0_delta_te b = \<bar>te ! 1 - te ! 0\<bar> * 0.001 \<and>
     B0_phase_difference b =
       map2 (\<lambda>x1 x0. case x1 of None \<Rightarrow> None
                      | Some u \<Rightarrow> (case x0 of None \<Rightarrow> None | Some v \<Rightarrow> Some (u - v)))
         (B0_phase1 b) (B0_phase0 b) \<and>
     B0_b0_map b =
       map (\<lambda>d. case d of None \<Rightarrow> None
                | Some x \<Rightarrow> if B0_delta_te b = 0 then None
                            else Some (x / (2 * pi * B0_delta_te b)))
         (B0_phase_difference b)"
proof -
  from B0_init_Inr [OF ok] obtain p0 p1 where
    p0: "phase_image pa 0 mask_arg = Inr p0" and p1: "phase_image pa 1 mask_arg = Inr p1"
    and q0: "(if unwrap then up w p0 else Inr p0) = Inr (B0_phase0 b)"
    and q1: "(if unwrap then up w p1 else Inr p1) = Inr (B0_phase1 b)"
    and sub: "ma_subtract (B0_phase1 b) (B0_phase0 b) = Inr (B0_phase_difference b)"
    and dte: "B0_delta_te b = \<bar>te ! 1 - te ! 0\<bar> * 0.001"
    and div: "B0_b0_map b = ma_true_divide (B0_phase_difference b) (2 * pi * B0_delta_te b)"
    by blast
  from phase_image_Inr [OF p0] obtain r0 where
    r0: "convert_to_pi_range (map (\<lambda>row. row ! 0) (voxel_rows pa)) = Inr r0"
      "masked_array r0 mask_arg = Inr p0"
    by blast
  from phase_image_Inr [OF p1] obtain r1 where
    r1: "convert_to_pi_range (map (\<lambda>row. row ! 1) (voxel_rows pa)) = Inr r1"
      "masked_array r1 mask_arg = Inr p1"
    by blast
  have len: "length (B0_phase0 b) = length (B0_phase1 b)"
    using ma_subtract_length [OF sub] by simp
  have pd: "B0_phase_difference b =
       map2 (\<lambda>x1 x0. case x1 of None \<Rightarrow> None
                      | Some u \<Rightarrow> (case x0 of None \<Rightarrow> None | Some v \<Rightarrow> Some (u - v)))
         (B0_phase1 b) (B0_phase0 b)"
    using sub by (simp add: ma_subtract_def split: if_splits)
  have fm: "B0_b0_map b =
       map (\<lambda>d. case d of None \<Rightarrow> None
                | Some x \<Rightarrow> if B0_delta_te b = 0 then None
                            else Some (x / (2 * pi * B0_delta_te b)))
         (B0_phase_difference b)"
    unfolding div ma_true_divide_def by (rule map_cong) (auto split: option.splits)
  show ?thesis
    using r0 r1 q0 q1 len dte pd fm by blast
qed

text \<open>Two voxels, echo times 5 ms and 7 ms, no mask, no unwrapping.\<close>

theorem B0_field_map_formula_witness:
  "B0_init (\<lambda>w a. Inr a)
     \<lparr>spatial_shape = [2], last_axis = 2, voxel_rows = [[1, 3 / 2], [2, 2]]\<rparr> [5, 7]
     None False False
   = Inr \<lparr>B0_pixel_array = \<lparr>spatial_shape = [2], last_axis = 2, voxel_rows = [[1, 3 / 2], [2, 2]]\<rparr>,
          B0_shape = [2], B0_n_te = 2, B0_mask = [True, True],
          B0_delta_te = \<bar>[5, 7] ! 1 - [5, 7] ! 0\<bar> * 0.001,
          B0_phase0 = [Some 1, Some 2], B0_phase1 = [Some (3 / 2), Some 2],
          B0_phase_difference = [Some (3 / 2 - 1), Some (2 - 2)],
          B0_b0_map = [Some ((3 / 2 - 1) / (2 * pi * (2 / 1000))), Some 0]\<rparr>"
proof -
  have ev: "B0_init (\<lambda>w a. Inr a)
     \<lparr>spatial_shape = [2], last_axis = 2, voxel_rows = [[1, 3 / 2], [2, 2]]\<rparr> [5, 7]
     None False False
   = Inr \<lparr>B0_pixel_array = \<lparr>spatial_shape = [2], last_axis = 2, voxel_rows = [[1, 3 / 2], [2, 2]]\<rparr>,
          B0_shape = [2], B0_n_te = 2, B0_mask = [True, True], B0_delta_te = 2 / 1000,
          B0_phase0 = [Some 1, Some 2], B0_phase1 = [Some (3 / 2), Some 2],
          B0_phase_difference = [Some (1 / 2), Some 0],
          B0_b0_map = [Some (125 / pi), Some 0]\<rparr>"
    by (simp add: b0_eval eval_nat_numeral)
  show ?thesis
    using B0_field_map_formula [OF ev] ev by simp
qed








end
